theory Spec2Isabelle
  imports Main "HOL-Library.Word"
begin

unbundle bit_operations_syntax

section \<open>The collaborators of the signed layer\<close>

text \<open>
  \<^verbatim>\<open>int.go\<close> builds the signed integer on three types that live in other files of the
  package: the masked boolean \<^verbatim>\<open>Choice\<close>, the unsigned magnitude \<^verbatim>\<open>Nat\<close> and the
  \<^verbatim>\<open>Modulus\<close>. Their operations are modelled here from the contract the specification
  gives for them (sections 3, 4.6, 4.7 and 6); the methods of \<^verbatim>\<open>Int\<close> further down are
  translated from \<^verbatim>\<open>int.go\<close> line by line.
\<close>

subsection \<open>Choice\<close>

text \<open>
  Modelled from the spec: the type \<^verbatim>\<open>Choice\<close> is declared outside \<^verbatim>\<open>int.go\<close>. It is
  "a single-bit branchless boolean represented as a machine word holding exactly 0 or 1",
  combined with the plain bitwise operators of the word.
\<close>

type_synonym Choice = "64 word"

definition is_choice :: "Choice \<Rightarrow> bool" where
  "is_choice c \<longleftrightarrow> c = 0 \<or> c = 1"

text \<open>The masked boolean a predicate of the magnitude engine hands back for a truth value.\<close>

definition choice_of :: "bool \<Rightarrow> Choice" where
  "choice_of b = (if b then 1 else 0)"

subsection \<open>Nat and Modulus\<close>

text \<open>
  Modelled from the spec: the type \<^verbatim>\<open>Nat\<close> is declared outside \<^verbatim>\<open>int.go\<close>. It is "an
  unsigned arbitrary-precision integer" with two attributes, the "absolute value" and the
  "announced bit-length".
\<close>

record Nat_t =
  val :: nat
  announced :: nat

text \<open>The value \<^verbatim>\<open>new(Nat)\<close> starts from: Go's zero value of the struct.\<close>

definition new_Nat :: Nat_t where
  "new_Nat = \<lparr>val = 0, announced = 0\<rparr>"

text \<open>
  Modelled from the spec: the type \<^verbatim>\<open>Modulus\<close> is declared outside \<^verbatim>\<open>int.go\<close>. It is "an
  opaque collaborator type representing a positive modulus m"; a modulus of zero is
  invalid and the behaviour on it is left unspecified.
\<close>

type_synonym Modulus = nat

definition valid_modulus :: "Modulus \<Rightarrow> bool" where
  "valid_modulus m \<longleftrightarrow> 0 < m"

text \<open>The number of bits of a natural number, the capacity a residue of a modulus needs.\<close>

fun BitLen :: "nat \<Rightarrow> nat" where
  "BitLen n = (if n = 0 then 0 else Suc (BitLen (n div 2)))"

declare BitLen.simps [simp del]

text \<open>
  Every method of \<^verbatim>\<open>Nat\<close> below takes its receiver first, as the call sites of \<^verbatim>\<open>int.go\<close>
  have it, and returns the receiver's new contents.
\<close>

text \<open>
  Modelled from the spec: \<^verbatim>\<open>Nat.SetBytes\<close> is missing from the sources; it "interprets
  data as a big-endian unsigned magnitude". The announced size, on which the spec is
  silent, is taken as eight bits for each byte.
\<close>

definition Nat_SetBytes :: "Nat_t \<Rightarrow> 8 word list \<Rightarrow> Nat_t" where
  "Nat_SetBytes z data =
     \<lparr>val = foldl (\<lambda>acc b. acc * 256 + unat b) 0 data, announced = 8 * length data\<rparr>"

text \<open>
  Modelled from the spec: \<^verbatim>\<open>Nat.SetUint64\<close> is missing from the sources; the "magnitude
  [is] set from a native unsigned 64-bit value". The announced size, on which the spec is
  silent, is taken as the 64 bits of the argument.
\<close>

definition Nat_SetUint64 :: "Nat_t \<Rightarrow> 64 word \<Rightarrow> Nat_t" where
  "Nat_SetUint64 z x = \<lparr>val = unat x, announced = 64\<rparr>"

text \<open>
  Modelled from the spec: \<^verbatim>\<open>Nat.SetNat\<close> is missing from the sources; it is the "deep
  copy" of another magnitude, value and announced size.
\<close>

definition Nat_SetNat :: "Nat_t \<Rightarrow> Nat_t \<Rightarrow> Nat_t" where
  "Nat_SetNat z x = x"

text \<open>
  Modelled from the spec: \<^verbatim>\<open>Nat.EqZero\<close> and \<^verbatim>\<open>Nat.Eq\<close> are missing from the sources; they
  return the masks of "this magnitude is zero" and of "magnitude equality". Equality is
  that of the values: "two Nats with the same numeric value may have different announced
  sizes".
\<close>

definition Nat_EqZero :: "Nat_t \<Rightarrow> Choice" where
  "Nat_EqZero z = choice_of (val z = 0)"

definition Nat_Eq :: "Nat_t \<Rightarrow> Nat_t \<Rightarrow> Choice" where
  "Nat_Eq z x = choice_of (val z = val x)"

text \<open>
  Modelled from the spec: \<^verbatim>\<open>Nat.Cmp\<close> is missing from the sources; it returns "(greater,
  equal, less as Choices)" for the receiver against the argument.
\<close>

definition Nat_Cmp :: "Nat_t \<Rightarrow> Nat_t \<Rightarrow> Choice \<times> Choice \<times> Choice" where
  "Nat_Cmp z x =
     (choice_of (val z > val x), choice_of (val z = val x), choice_of (val z < val x))"

text \<open>
  Modelled from the spec: \<^verbatim>\<open>Nat.CmpMod\<close> is missing from the sources; it is the
  "compare-to-modulus operation", of the same shape as \<^verbatim>\<open>Cmp\<close>, whose last component says
  that "the magnitude is strictly less than m".
\<close>

definition Nat_CmpMod :: "Nat_t \<Rightarrow> Modulus \<Rightarrow> Choice \<times> Choice \<times> Choice" where
  "Nat_CmpMod z m = (choice_of (val z > m), choice_of (val z = m), choice_of (val z < m))"

text \<open>
  Modelled from the spec: \<^verbatim>\<open>Nat.Mul\<close> is missing from the sources. The magnitude is the
  product "truncated/capped to cap announced bits; if cap < 0, the cap defaults to x's
  announced bit-length plus y's announced bit-length".
\<close>

definition Nat_Mul :: "Nat_t \<Rightarrow> Nat_t \<Rightarrow> Nat_t \<Rightarrow> int \<Rightarrow> Nat_t" where
  "Nat_Mul z x y cap =
     (let cap = (if cap < 0 then announced x + announced y else nat cap)
      in \<lparr>val = (val x * val y) mod 2 ^ cap, announced = cap\<rparr>)"

text \<open>
  Modelled from the spec: \<^verbatim>\<open>Nat.Mod\<close> is missing from the sources; it returns the "reduced
  magnitude in [0, modulus)". The announced size of a residue, on which the spec is
  silent, is taken as the bit length of the modulus.
\<close>

definition Nat_Mod :: "Nat_t \<Rightarrow> Nat_t \<Rightarrow> Modulus \<Rightarrow> Nat_t" where
  "Nat_Mod z x m = \<lparr>val = val x mod m, announced = BitLen m\<rparr>"

text \<open>
  Modelled from the spec: \<^verbatim>\<open>Nat.ModNeg\<close> is missing from the sources; it returns "the
  additive inverse of r modulo m, i.e., (m - r) mod m, with ModNeg(0, m) = 0". The
  argument is reduced first, since \<^verbatim>\<open>CheckInRange\<close> passes a magnitude that may exceed
  the modulus.
\<close>

definition Nat_ModNeg :: "Nat_t \<Rightarrow> Nat_t \<Rightarrow> Modulus \<Rightarrow> Nat_t" where
  "Nat_ModNeg z x m = \<lparr>val = (m - val x mod m) mod m, announced = BitLen m\<rparr>"

text \<open>
  Modelled from the spec: \<^verbatim>\<open>Nat.CondAssign\<close> is missing from the sources; it "overwrites
  the receiver with other iff mask is true".
\<close>

definition Nat_CondAssign :: "Nat_t \<Rightarrow> Choice \<Rightarrow> Nat_t \<Rightarrow> Nat_t" where
  "Nat_CondAssign z yes x = (if yes = 1 then x else z)"

section \<open>The signed integer of \<^verbatim>\<open>int.go\<close>\<close>

text \<open>
  \<^verbatim>\<open>type Int struct { sign Choice; abs Nat }\<close>. The field \<^verbatim>\<open>abs\<close> is called \<open>absv\<close> here,
  the name \<open>abs\<close> being taken by the absolute value of HOL.
\<close>

record Int_t =
  sign :: Choice
  absv :: Nat_t

text \<open>"This number is represented by (-1)^sign * abs".\<close>

definition Int_value :: "Int_t \<Rightarrow> int" where
  "Int_value z = (- 1) ^ unat (sign z) * int (val (absv z))"

text \<open>
  Every method writes into its receiver \<open>z\<close> and returns it; the model takes the receiver
  first and returns its new contents.
\<close>

definition Int_SetBytes :: "Int_t \<Rightarrow> 8 word list \<Rightarrow> Int_t" where
  "Int_SetBytes z data =
     (let z = z\<lparr>sign := 0\<rparr>;
          z = z\<lparr>absv := Nat_SetBytes (absv z) data\<rparr>
      in z)"

definition Int_SetUint64 :: "Int_t \<Rightarrow> 64 word \<Rightarrow> Int_t" where
  "Int_SetUint64 z x =
     (let z = z\<lparr>sign := 0\<rparr>;
          z = z\<lparr>absv := Nat_SetUint64 (absv z) x\<rparr>
      in z)"

definition Int_Eq :: "Int_t \<Rightarrow> Int_t \<Rightarrow> Choice" where
  "Int_Eq z x =
     (let zero = Nat_EqZero (absv z);
          sameSign = zero OR ((1 XOR sign z) XOR sign x)
      in sameSign AND Nat_Eq (absv z) (absv x))"

definition Int_Abs :: "Int_t \<Rightarrow> Nat_t" where
  "Int_Abs z = Nat_SetNat new_Nat (absv z)"

definition Int_Neg :: "Int_t \<Rightarrow> Int_t \<Rightarrow> Int_t" where
  "Int_Neg z x =
     (let z = z\<lparr>sign := 1 XOR sign x\<rparr>;
          z = z\<lparr>absv := Nat_SetNat (absv z) (absv x)\<rparr>
      in z)"

definition Int_Mul :: "Int_t \<Rightarrow> Int_t \<Rightarrow> Int_t \<Rightarrow> int \<Rightarrow> Int_t" where
  "Int_Mul z x y cap =
     (let z = z\<lparr>sign := sign x XOR sign y\<rparr>;
          z = z\<lparr>absv := Nat_Mul (absv z) (absv x) (absv y) cap\<rparr>
      in z)"

definition Int_Mod :: "Int_t \<Rightarrow> Modulus \<Rightarrow> Nat_t" where
  "Int_Mod z m =
     (let out = Nat_Mod new_Nat (absv z) m;
          negated = Nat_ModNeg new_Nat out m;
          out = Nat_CondAssign out (sign z) negated
      in out)"

definition Int_SetModSymmetric :: "Int_t \<Rightarrow> Nat_t \<Rightarrow> Modulus \<Rightarrow> Int_t" where
  "Int_SetModSymmetric z x m =
     (let z = z\<lparr>absv := Nat_Mod (absv z) x m\<rparr>;
          negated = Nat_ModNeg new_Nat (absv z) m;
          (gt, eq, lt) = Nat_Cmp negated (absv z);
          negatedLeq = 1 XOR gt;
          z = z\<lparr>absv := Nat_CondAssign (absv z) negatedLeq negated\<rparr>;
          z = z\<lparr>sign := negatedLeq\<rparr>
      in z)"

definition Int_CheckInRange :: "Int_t \<Rightarrow> Modulus \<Rightarrow> Choice" where
  "Int_CheckInRange z m =
     (let (gt, eq, absOk) = Nat_CmpMod (absv z) m;
          negated = Nat_ModNeg new_Nat (absv z) m;
          (gt', eq', lt) = Nat_Cmp negated (absv z);
          signOk = 1 XOR lt
      in absOk AND signOk)"

section \<open>Masks\<close>

lemma choice_of_is_choice: "is_choice (choice_of b)"
  by (simp add: choice_of_def is_choice_def)

lemma choice_of_eq_1 [simp]: "choice_of b = 1 \<longleftrightarrow> b"
  by (simp add: choice_of_def)

lemma choice_of_eq_0 [simp]: "choice_of b = 0 \<longleftrightarrow> \<not> b"
  by (simp add: choice_of_def)

lemma not_choice_of [simp]: "1 XOR choice_of b = choice_of (\<not> b)"
  by (simp add: choice_of_def)

lemma and_choice_of [simp]: "choice_of a AND choice_of b = choice_of (a \<and> b)"
  by (simp add: choice_of_def)

lemma or_choice_of [simp]: "choice_of a OR choice_of b = choice_of (a \<or> b)"
  by (simp add: choice_of_def)

lemma choice_cases: "is_choice c \<Longrightarrow> c = choice_of (c = 1)"
  by (auto simp: is_choice_def choice_of_def)

lemma Int_value_cases:
  "is_choice (sign z) \<Longrightarrow>
   Int_value z = (if sign z = 1 then - int (val (absv z)) else int (val (absv z)))"
  by (auto simp: is_choice_def Int_value_def)

section \<open>Construction\<close>

text \<open>
  C8. For every byte slice and every 64-bit value, \<^verbatim>\<open>SetBytes\<close> and \<^verbatim>\<open>SetUint64\<close> set the
  sign of the receiver to 0, whatever the receiver held before, so that the number
  constructed is never below zero.
\<close>

theorem construction_nonnegative:
  "sign (Int_SetBytes z data) = 0 \<and> 0 \<le> Int_value (Int_SetBytes z data) \<and>
   sign (Int_SetUint64 z x) = 0 \<and> 0 \<le> Int_value (Int_SetUint64 z x)"
  by (simp add: Int_SetBytes_def Int_SetUint64_def Int_value_def)

theorem construction_nonnegative_example:
  "Int_value (Int_SetUint64 \<lparr>sign = 1, absv = new_Nat\<rparr> 6) = 6 \<and>
   Int_value (Int_SetBytes \<lparr>sign = 1, absv = new_Nat\<rparr> [1, 2]) = 258"
  by (simp add: Int_SetBytes_def Int_SetUint64_def Int_value_def Nat_SetBytes_def
      Nat_SetUint64_def)

section \<open>Equality\<close>

text \<open>
  C3. For Ints \<open>z\<close> and \<open>x\<close> whose signs are 0 or 1, \<^verbatim>\<open>Eq\<close> returns a mask, and the mask
  is true exactly when \<open>(-1)^sign * abs\<close> is the same integer for both. In particular
  the two representations of zero are equal: sign 0 with a magnitude of value zero equals
  sign 1 with the same magnitude.
\<close>

theorem eq_iff_same_value:
  assumes "is_choice (sign z)" and "is_choice (sign x)"
  shows "is_choice (Int_Eq z x) \<and>
         (Int_Eq z x = 1 \<longleftrightarrow> Int_value z = Int_value x) \<and>
         (val a = 0 \<longrightarrow> Int_Eq \<lparr>sign = 0, absv = a\<rparr> \<lparr>sign = 1, absv = a\<rparr> = 1)"
  using assms
  by (auto simp: Int_value_cases Int_Eq_def Nat_EqZero_def Nat_Eq_def is_choice_def
      choice_of_def)

theorem eq_iff_same_value_witness:
  "is_choice (sign \<lparr>sign = 0, absv = \<lparr>val = 0, announced = 8\<rparr>\<rparr>) \<and>
   is_choice (sign \<lparr>sign = 1, absv = \<lparr>val = 0, announced = 3\<rparr>\<rparr>) \<and>
   Int_Eq \<lparr>sign = 0, absv = \<lparr>val = 0, announced = 8\<rparr>\<rparr>
          \<lparr>sign = 1, absv = \<lparr>val = 0, announced = 3\<rparr>\<rparr> = 1 \<and>
   Int_Eq \<lparr>sign = 0, absv = new_Nat\<rparr> \<lparr>sign = 1, absv = new_Nat\<rparr> = 1"
proof -
  have h1: "is_choice (sign \<lparr>sign = 0, absv = \<lparr>val = 0, announced = 8\<rparr>\<rparr>)"
    by (simp add: is_choice_def)
  have h2: "is_choice (sign \<lparr>sign = 1, absv = \<lparr>val = 0, announced = 3\<rparr>\<rparr>)"
    by (simp add: is_choice_def)
  have h3: "val new_Nat = 0"
    by (simp add: new_Nat_def)
  show ?thesis
    using eq_iff_same_value [OF h1 h2, where a = new_Nat] h1 h2 h3
    by (simp add: Int_value_def)
qed

text \<open>
  C10. \<^verbatim>\<open>Eq\<close> is symmetric: \<open>Eq(z, x)\<close> and \<open>Eq(x, z)\<close> are the same mask, although only
  the magnitude of the receiver is tested for zero. Whenever the magnitudes differ both
  masks are false, and when they agree both are zero or neither is.
\<close>

theorem eq_symmetric: "Int_Eq z x = Int_Eq x z"
  by (simp add: Int_Eq_def Nat_EqZero_def Nat_Eq_def choice_of_def xor.commute
      xor.left_commute)

section \<open>Negation\<close>

text \<open>
  C6. Negating twice gives a number equal to the original under \<^verbatim>\<open>Eq\<close>. A single \<^verbatim>\<open>Neg\<close>
  sets the sign to \<open>1 XOR\<close> the sign of its argument, whatever the magnitude is (zero
  included), and copies the magnitude of the argument, value and announced size.
\<close>

theorem neg_involution:
  "Int_Eq (Int_Neg z' (Int_Neg z x)) x = 1 \<and>
   sign (Int_Neg z x) = 1 XOR sign x \<and>
   absv (Int_Neg z x) = absv x \<and>
   val (absv (Int_Neg z x)) = val (absv x) \<and>
   announced (absv (Int_Neg z x)) = announced (absv x)"
  by (simp add: Int_Eq_def Int_Neg_def Nat_SetNat_def Nat_EqZero_def Nat_Eq_def
      choice_of_def xor.assoc)

theorem neg_zero_example:
  "Int_Neg z \<lparr>sign = 0, absv = \<lparr>val = 0, announced = 8\<rparr>\<rparr> =
     z\<lparr>sign := 1, absv := \<lparr>val = 0, announced = 8\<rparr>\<rparr>"
  by (simp add: Int_Neg_def Nat_SetNat_def)

section \<open>Multiplication\<close>

text \<open>
  C7. The sign of a product is the XOR of the signs of the factors. For a capacity that
  is not negative the magnitude is the product of the magnitudes truncated to that many
  bits, which is the announced size of the result. For a negative capacity the announced
  size is the sum of the announced sizes of the factors, the magnitude is truncated to
  that many bits, and it is the exact product whenever the product fits in them.
\<close>

theorem mul_sign_and_cap:
  "sign (Int_Mul z x y cap) = sign x XOR sign y \<and>
   (0 \<le> cap \<longrightarrow>
      val (absv (Int_Mul z x y cap)) = (val (absv x) * val (absv y)) mod 2 ^ nat cap \<and>
      announced (absv (Int_Mul z x y cap)) = nat cap) \<and>
   (cap < 0 \<longrightarrow>
      announced (absv (Int_Mul z x y cap)) = announced (absv x) + announced (absv y) \<and>
      val (absv (Int_Mul z x y cap)) =
        (val (absv x) * val (absv y)) mod 2 ^ (announced (absv x) + announced (absv y)) \<and>
      (val (absv x) * val (absv y) < 2 ^ (announced (absv x) + announced (absv y)) \<longrightarrow>
         val (absv (Int_Mul z x y cap)) = val (absv x) * val (absv y)))"
  by (simp add: Int_Mul_def Nat_Mul_def Let_def)

theorem mul_sign_and_cap_witness:
  "sign (Int_Mul \<lparr>sign = 0, absv = new_Nat\<rparr> \<lparr>sign = 1, absv = \<lparr>val = 6, announced = 3\<rparr>\<rparr>
                    \<lparr>sign = 1, absv = \<lparr>val = 7, announced = 3\<rparr>\<rparr> (- 1)) = 0 \<and>
   (- 1 :: int) < 0 \<and> (6 * 7 :: nat) < 2 ^ (3 + 3) \<and>
   announced (absv (Int_Mul \<lparr>sign = 0, absv = new_Nat\<rparr> \<lparr>sign = 1, absv = \<lparr>val = 6, announced = 3\<rparr>\<rparr>
                    \<lparr>sign = 1, absv = \<lparr>val = 7, announced = 3\<rparr>\<rparr> (- 1))) = 6 \<and>
   val (absv (Int_Mul \<lparr>sign = 0, absv = new_Nat\<rparr> \<lparr>sign = 1, absv = \<lparr>val = 6, announced = 3\<rparr>\<rparr>
                    \<lparr>sign = 1, absv = \<lparr>val = 7, announced = 3\<rparr>\<rparr> (- 1))) = 42 \<and>
   (0 :: int) \<le> 4 \<and>
   val (absv (Int_Mul \<lparr>sign = 0, absv = new_Nat\<rparr> \<lparr>sign = 1, absv = \<lparr>val = 6, announced = 3\<rparr>\<rparr>
                    \<lparr>sign = 0, absv = \<lparr>val = 7, announced = 3\<rparr>\<rparr> 4)) = 10 \<and>
   sign (Int_Mul \<lparr>sign = 0, absv = new_Nat\<rparr> \<lparr>sign = 1, absv = \<lparr>val = 6, announced = 3\<rparr>\<rparr>
                    \<lparr>sign = 0, absv = \<lparr>val = 7, announced = 3\<rparr>\<rparr> 4) = 1"
  using mul_sign_and_cap [of "\<lparr>sign = 0, absv = new_Nat\<rparr>" "\<lparr>sign = 1, absv = \<lparr>val = 6, announced = 3\<rparr>\<rparr>"
      "\<lparr>sign = 1, absv = \<lparr>val = 7, announced = 3\<rparr>\<rparr>" "- 1"]
    mul_sign_and_cap [of "\<lparr>sign = 0, absv = new_Nat\<rparr>" "\<lparr>sign = 1, absv = \<lparr>val = 6, announced = 3\<rparr>\<rparr>"
      "\<lparr>sign = 0, absv = \<lparr>val = 7, announced = 3\<rparr>\<rparr>" 4]
  by simp

section \<open>Reduction to the canonical residue\<close>

lemma int_mod_neg:
  assumes "0 < (m::nat)"
  shows "int ((m - a mod m) mod m) = (- int a) mod int m"
proof (cases "a mod m = 0")
  case True
  then have "int m dvd int a" by (simp add: mod_eq_0_iff_dvd)
  then have "(- int a) mod int m = 0" by simp
  with True show ?thesis by simp
next
  case False
  have lt: "a mod m < m" using assms by simp
  with False have "(m - a mod m) mod m = m - a mod m" by simp
  moreover have "(- int a) mod int m = int m - int a mod int m"
    using False by (simp add: zmod_zminus1_eq_if flip: zmod_int)
  ultimately show ?thesis using lt by (simp add: zmod_int)
qed

lemma Int_Mod_val:
  "val (Int_Mod z m) =
     (if sign z = 1 then (m - val (absv z) mod m) mod m else val (absv z) mod m)"
  by (simp add: Int_Mod_def Nat_Mod_def Nat_ModNeg_def Nat_CondAssign_def)

text \<open>
  C1. For an Int \<open>z\<close> whose sign is 0 or 1 and a valid modulus \<open>m\<close>, \<^verbatim>\<open>Mod\<close> returns a Nat
  below \<open>m\<close> whose value is the residue of \<open>(-1)^sign * abs\<close> modulo \<open>m\<close> (the least
  one that is not negative, hence congruent to it). For sign 1, magnitude 3 and modulus 7
  the result is 4.
\<close>

theorem mod_canonical_residue:
  assumes "is_choice (sign z)" and "valid_modulus m"
  shows "val (Int_Mod z m) < m \<and>
         int (val (Int_Mod z m)) = Int_value z mod int m \<and>
         int (val (Int_Mod z m)) mod int m = Int_value z mod int m \<and>
         val (Int_Mod \<lparr>sign = 1, absv = \<lparr>val = 3, announced = n\<rparr>\<rparr> 7) = 4"
proof -
  from assms(2) have m: "0 < m" by (simp add: valid_modulus_def)
  then have small: "val (Int_Mod z m) < m" by (simp add: Int_Mod_val)
  have res: "int (val (Int_Mod z m)) = Int_value z mod int m"
  proof (cases "sign z = 1")
    case True
    with assms(1) m show ?thesis
      by (simp add: Int_Mod_val Int_value_cases int_mod_neg)
  next
    case False
    with assms(1) show ?thesis
      by (simp add: Int_Mod_val Int_value_cases zmod_int)
  qed
  have "val (Int_Mod \<lparr>sign = 1, absv = \<lparr>val = 3, announced = n\<rparr>\<rparr> 7) = 4"
    by (simp add: Int_Mod_val)
  with small res show ?thesis by simp
qed

theorem mod_canonical_residue_witness:
  "is_choice (sign \<lparr>sign = 1, absv = \<lparr>val = 3, announced = 2\<rparr>\<rparr>) \<and> valid_modulus 7 \<and>
   val (Int_Mod \<lparr>sign = 1, absv = \<lparr>val = 3, announced = 2\<rparr>\<rparr> 7) < 7 \<and>
   int (val (Int_Mod \<lparr>sign = 1, absv = \<lparr>val = 3, announced = 2\<rparr>\<rparr> 7)) =
     Int_value \<lparr>sign = 1, absv = \<lparr>val = 3, announced = 2\<rparr>\<rparr> mod 7 \<and>
   Int_value \<lparr>sign = 1, absv = \<lparr>val = 3, announced = 2\<rparr>\<rparr> = - 3 \<and>
   val (Int_Mod \<lparr>sign = 1, absv = \<lparr>val = 3, announced = 2\<rparr>\<rparr> 7) = 4"
proof -
  have h1: "is_choice (sign \<lparr>sign = 1, absv = \<lparr>val = 3, announced = 2\<rparr>\<rparr>)"
    by (simp add: is_choice_def)
  have h2: "valid_modulus 7"
    by (simp add: valid_modulus_def)
  have h3: "Int_value \<lparr>sign = 1, absv = \<lparr>val = 3, announced = 2\<rparr>\<rparr> = - 3"
    by (simp add: Int_value_def)
  show ?thesis
    using mod_canonical_residue [OF h1 h2, where n = 2] h1 h2 h3 by simp
qed

section \<open>The symmetric representative\<close>

lemma SetModSymmetric_sign:
  "sign (Int_SetModSymmetric z x m) = choice_of ((m - val x mod m) mod m \<le> val x mod m)"
  by (simp add: Int_SetModSymmetric_def Nat_Mod_def Nat_ModNeg_def Nat_Cmp_def
      Nat_CondAssign_def Let_def not_less)

lemma SetModSymmetric_val:
  "val (absv (Int_SetModSymmetric z x m)) = min (val x mod m) ((m - val x mod m) mod m)"
  by (simp add: Int_SetModSymmetric_def Nat_Mod_def Nat_ModNeg_def Nat_Cmp_def
      Nat_CondAssign_def Let_def not_less min_def)

lemma SetModSymmetric_value:
  "Int_value (Int_SetModSymmetric z x m) =
     (if (m - val x mod m) mod m \<le> val x mod m
      then - int ((m - val x mod m) mod m) else int (val x mod m))"
  by (simp add: Int_value_cases SetModSymmetric_sign SetModSymmetric_val choice_of_is_choice)

lemma SetModSymmetric_is_choice: "is_choice (sign (Int_SetModSymmetric z x m))"
  by (simp add: SetModSymmetric_sign choice_of_is_choice)

lemma SetModSymmetric_congruent:
  assumes "0 < m"
  shows "Int_value (Int_SetModSymmetric z x m) mod int m = int (val x) mod int m"
proof -
  have "(- int ((m - val x mod m) mod m)) mod int m = int (val x) mod int m"
    using assms by (simp add: int_mod_neg mod_minus_eq)
  then show ?thesis by (simp add: SetModSymmetric_value zmod_int)
qed

lemma SetModSymmetric_bounds:
  assumes "0 < m"
  shows "- int ((m - 1) div 2) - (if even m then 1 else 0)
           \<le> Int_value (Int_SetModSymmetric z x m)"
    and "Int_value (Int_SetModSymmetric z x m) \<le> int ((m - 1) div 2)"
proof -
  define r where "r = val x mod m"
  have r: "r < m" using assms by (simp add: r_def)
  have neg: "(m - r) mod m = (if r = 0 then 0 else m - r)" using r by simp
  have v: "Int_value (Int_SetModSymmetric z x m) =
      (if (m - r) mod m \<le> r then - int ((m - r) mod m) else int r)"
    by (simp add: SetModSymmetric_value r_def)
  show "- int ((m - 1) div 2) - (if even m then 1 else 0)
          \<le> Int_value (Int_SetModSymmetric z x m)"
    unfolding v neg using r by (auto elim!: evenE oddE)
  show "Int_value (Int_SetModSymmetric z x m) \<le> int ((m - 1) div 2)"
    unfolding v neg using r by (auto elim!: evenE oddE)
qed

lemma SetModSymmetric_midpoint:
  assumes "0 < m" "even m" "val x mod m = m div 2"
  shows "sign (Int_SetModSymmetric z x m) = 1"
    and "val (absv (Int_SetModSymmetric z x m)) = m div 2"
  using assms by (auto simp: SetModSymmetric_sign SetModSymmetric_val elim!: evenE)

text \<open>
  C2. For a Nat \<open>x\<close> and a valid modulus \<open>m\<close>, \<^verbatim>\<open>SetModSymmetric\<close> gives an Int that is
  congruent to \<open>x\<close> modulo \<open>m\<close>, whose value is at most \<open>(m - 1) div 2\<close> and at least
  \<open>- ((m - 1) div 2)\<close>, less one more when \<open>m\<close> is even; its magnitude is the smaller of
  the reduced residue and the negation of that residue modulo \<open>m\<close>. At the midpoint of an
  even modulus, where the two agree, the sign is negative: for modulus 8 and residue 4
  the result has sign 1 and magnitude 4.
\<close>

theorem set_mod_symmetric_centered:
  assumes "valid_modulus m"
  shows "is_choice (sign (Int_SetModSymmetric z x m)) \<and>
         Int_value (Int_SetModSymmetric z x m) mod int m = int (val x) mod int m \<and>
         - int ((m - 1) div 2) - (if even m then 1 else 0)
           \<le> Int_value (Int_SetModSymmetric z x m) \<and>
         Int_value (Int_SetModSymmetric z x m) \<le> int ((m - 1) div 2) \<and>
         val (absv (Int_SetModSymmetric z x m)) =
           min (val (Nat_Mod new_Nat x m))
               (val (Nat_ModNeg new_Nat (Nat_Mod new_Nat x m) m)) \<and>
         (even m \<and> val x mod m = m div 2 \<longrightarrow>
            sign (Int_SetModSymmetric z x m) = 1 \<and>
            val (absv (Int_SetModSymmetric z x m)) = m div 2) \<and>
         sign (Int_SetModSymmetric z \<lparr>val = 4, announced = n\<rparr> 8) = 1 \<and>
         val (absv (Int_SetModSymmetric z \<lparr>val = 4, announced = n\<rparr> 8)) = 4"
proof -
  from assms have m: "0 < m" by (simp add: valid_modulus_def)
  have "val (absv (Int_SetModSymmetric z x m)) =
           min (val (Nat_Mod new_Nat x m))
               (val (Nat_ModNeg new_Nat (Nat_Mod new_Nat x m) m))"
    by (simp add: SetModSymmetric_val Nat_Mod_def Nat_ModNeg_def)
  moreover have "sign (Int_SetModSymmetric z \<lparr>val = 4, announced = n\<rparr> 8) = 1"
    by (simp add: SetModSymmetric_sign)
  moreover have "val (absv (Int_SetModSymmetric z \<lparr>val = 4, announced = n\<rparr> 8)) = 4"
    by (simp add: SetModSymmetric_val)
  ultimately show ?thesis
    using SetModSymmetric_is_choice SetModSymmetric_congruent [OF m]
      SetModSymmetric_bounds [OF m] SetModSymmetric_midpoint [OF m]
    by blast
qed

theorem set_mod_symmetric_centered_witness:
  "valid_modulus 8 \<and> even (8 :: nat) \<and> val \<lparr>val = 12, announced = 4\<rparr> mod 8 = 8 div 2 \<and>
   sign (Int_SetModSymmetric \<lparr>sign = 0, absv = new_Nat\<rparr> \<lparr>val = 12, announced = 4\<rparr> 8) = 1 \<and>
   val (absv (Int_SetModSymmetric \<lparr>sign = 0, absv = new_Nat\<rparr>
                \<lparr>val = 12, announced = 4\<rparr> 8)) = 4 \<and>
   Int_value (Int_SetModSymmetric \<lparr>sign = 0, absv = new_Nat\<rparr>
                \<lparr>val = 12, announced = 4\<rparr> 8) = - 4"
proof -
  have h1: "valid_modulus 8"
    by (simp add: valid_modulus_def)
  have h2: "even (8 :: nat) \<and> val \<lparr>val = 12, announced = 4\<rparr> mod 8 = 8 div 2"
    by simp
  have "sign (Int_SetModSymmetric \<lparr>sign = 0, absv = new_Nat\<rparr>
                \<lparr>val = 12, announced = 4\<rparr> 8) = 1 \<and>
        val (absv (Int_SetModSymmetric \<lparr>sign = 0, absv = new_Nat\<rparr>
                \<lparr>val = 12, announced = 4\<rparr> 8)) = 4"
    using set_mod_symmetric_centered [OF h1, of "\<lparr>sign = 0, absv = new_Nat\<rparr>"
        "\<lparr>val = 12, announced = 4\<rparr>" 3] h2
    by (simp add: Nat_Mod_def Nat_ModNeg_def)
  then show ?thesis using h1 h2 by (simp add: Int_value_def)
qed

section \<open>Range validation\<close>

lemma CheckInRange_iff:
  "Int_CheckInRange z m =
     choice_of (val (absv z) < m \<and> val (absv z) \<le> (m - val (absv z) mod m) mod m)"
  by (simp add: Int_CheckInRange_def Nat_CmpMod_def Nat_ModNeg_def Nat_Cmp_def Let_def
      not_less)

lemma SetModSymmetric_checked:
  assumes "0 < m"
  shows "Int_CheckInRange (Int_SetModSymmetric z x m) m = 1"
proof -
  define r where "r = val x mod m"
  have r: "r < m" using assms by (simp add: r_def)
  have neg: "(m - r) mod m = (if r = 0 then 0 else m - r)" using r by simp
  define a where "a = min r ((m - r) mod m)"
  have a: "a < m" "a = 0 \<or> a \<le> m - a" using r by (auto simp: a_def neg min_def)
  have "a \<le> (m - a mod m) mod m"
  proof (cases "a = 0")
    case True
    then show ?thesis by simp
  next
    case False
    with a have "(m - a mod m) mod m = m - a" "a \<le> m - a" by simp_all
    then show ?thesis by simp
  qed
  with a(1) show ?thesis
    by (simp add: CheckInRange_iff SetModSymmetric_val flip: r_def a_def)
qed

text \<open>
  C4. For a Nat \<open>x\<close> and a valid modulus \<open>m\<close>, \<^verbatim>\<open>CheckInRange\<close> accepts what
  \<^verbatim>\<open>SetModSymmetric\<close> produces. For modulus 7 and \<open>x = 4\<close> the symmetric representative
  is \<open>-3\<close>, with sign 1 and magnitude 3, and \<^verbatim>\<open>CheckInRange\<close> is true on it.
\<close>

theorem set_mod_symmetric_in_range:
  assumes "valid_modulus m"
  shows "Int_CheckInRange (Int_SetModSymmetric z x m) m = 1 \<and>
         sign (Int_SetModSymmetric z \<lparr>val = 4, announced = n\<rparr> 7) = 1 \<and>
         val (absv (Int_SetModSymmetric z \<lparr>val = 4, announced = n\<rparr> 7)) = 3 \<and>
         Int_value (Int_SetModSymmetric z \<lparr>val = 4, announced = n\<rparr> 7) = - 3 \<and>
         Int_CheckInRange (Int_SetModSymmetric z \<lparr>val = 4, announced = n\<rparr> 7) 7 = 1"
proof -
  from assms have m: "0 < m" by (simp add: valid_modulus_def)
  have "sign (Int_SetModSymmetric z \<lparr>val = 4, announced = n\<rparr> 7) = 1"
    by (simp add: SetModSymmetric_sign)
  moreover have "val (absv (Int_SetModSymmetric z \<lparr>val = 4, announced = n\<rparr> 7)) = 3"
    by (simp add: SetModSymmetric_val)
  moreover have "Int_value (Int_SetModSymmetric z \<lparr>val = 4, announced = n\<rparr> 7) = - 3"
    by (simp add: SetModSymmetric_value)
  ultimately show ?thesis
    using SetModSymmetric_checked [OF m] SetModSymmetric_checked [of 7] by simp
qed

theorem set_mod_symmetric_in_range_witness:
  "valid_modulus 7 \<and>
   Int_CheckInRange (Int_SetModSymmetric \<lparr>sign = 0, absv = new_Nat\<rparr>
                       \<lparr>val = 4, announced = 3\<rparr> 7) 7 = 1"
proof -
  have h: "valid_modulus 7"
    by (simp add: valid_modulus_def)
  show ?thesis
    using set_mod_symmetric_in_range [OF h, of "\<lparr>sign = 0, absv = new_Nat\<rparr>"
        "\<lparr>val = 4, announced = 3\<rparr>"] h
    by simp
qed

text \<open>
  C5, as the code has it. With the division of the specification, which rounds down as
  in \<open>(m - 1)/2\<close> for the range of \<^verbatim>\<open>SetModSymmetric\<close>, a magnitude of \<open>(m + 1)/2\<close> is
  the midpoint \<open>m/2\<close> of an even modulus, which \<^verbatim>\<open>CheckInRange\<close> accepts: for modulus 8
  the Int of sign 1 and magnitude 4 is the value \<open>-4\<close> that \<^verbatim>\<open>SetModSymmetric\<close> itself
  produces.
\<close>

theorem check_in_range_midpoint_counterexample:
  "valid_modulus 8 \<and>
   (8 + 1) div 2 \<le> val (absv \<lparr>sign = 1, absv = \<lparr>val = 4, announced = 3\<rparr>\<rparr>) \<and>
   Int_CheckInRange \<lparr>sign = 1, absv = \<lparr>val = 4, announced = 3\<rparr>\<rparr> 8 = 1 \<and>
   Int_CheckInRange \<lparr>sign = 1, absv = \<lparr>val = 4, announced = 3\<rparr>\<rparr> 8 \<noteq> 0"
  by (simp add: valid_modulus_def CheckInRange_iff)

text \<open>
  C5, amended. For a valid modulus \<open>m\<close>, an Int whose magnitude is at least
  \<open>(m + 1) div 2\<close> when \<open>m\<close> is odd, and at least \<open>m div 2 + 1\<close> when \<open>m\<close> is even (a
  magnitude above half the modulus in both cases), fails \<^verbatim>\<open>CheckInRange\<close> with either
  value of the sign.
\<close>

theorem check_in_range_rejects:
  assumes "valid_modulus m"
    and "(if even m then m div 2 + 1 else (m + 1) div 2) \<le> val (absv z)"
  shows "Int_CheckInRange z m = 0"
proof -
  from assms(1) have m: "0 < m" by (simp add: valid_modulus_def)
  define a where "a = val (absv z)"
  from assms(2) have big: "m < 2 * a"
    by (auto simp: a_def split: if_splits elim!: oddE)
  have "\<not> a \<le> (m - a mod m) mod m" if "a < m"
  proof -
    from that big have "(m - a mod m) mod m = m - a" by simp
    with big show ?thesis by simp
  qed
  then show ?thesis by (auto simp: CheckInRange_iff simp flip: a_def)
qed

theorem check_in_range_rejects_witness:
  "valid_modulus 7 \<and>
   (if even (7 :: nat) then 7 div 2 + 1 else (7 + 1) div 2)
     \<le> val (absv \<lparr>sign = 0, absv = \<lparr>val = 4, announced = 3\<rparr>\<rparr>) \<and>
   Int_CheckInRange \<lparr>sign = 0, absv = \<lparr>val = 4, announced = 3\<rparr>\<rparr> 7 = 0 \<and>
   valid_modulus 8 \<and>
   (if even (8 :: nat) then 8 div 2 + 1 else (8 + 1) div 2)
     \<le> val (absv \<lparr>sign = 1, absv = \<lparr>val = 5, announced = 3\<rparr>\<rparr>) \<and>
   Int_CheckInRange \<lparr>sign = 1, absv = \<lparr>val = 5, announced = 3\<rparr>\<rparr> 8 = 0"
proof -
  have h1: "valid_modulus 7" and h1': "valid_modulus 8"
    by (simp_all add: valid_modulus_def)
  have h2: "(if even (7 :: nat) then 7 div 2 + 1 else (7 + 1) div 2)
     \<le> val (absv \<lparr>sign = 0, absv = \<lparr>val = 4, announced = 3\<rparr>\<rparr>)"
    by simp
  have h2': "(if even (8 :: nat) then 8 div 2 + 1 else (8 + 1) div 2)
     \<le> val (absv \<lparr>sign = 1, absv = \<lparr>val = 5, announced = 3\<rparr>\<rparr>)"
    by simp
  show ?thesis
    using check_in_range_rejects [OF h1 h2] check_in_range_rejects [OF h1' h2'] h1 h1' h2 h2'
    by blast
qed

text \<open>
  C9. \<^verbatim>\<open>CheckInRange\<close> reads the magnitude only: it returns the same mask for an Int and
  for its negation, and for any two Ints whose magnitudes have the same value. So for an
  even valid modulus \<open>m\<close> it accepts the Int of sign 0 and magnitude \<open>m div 2\<close>, which
  \<^verbatim>\<open>SetModSymmetric\<close> never produces: at that magnitude the sign it sets is 1.
\<close>

theorem check_in_range_ignores_sign:
  "Int_CheckInRange (Int_Neg z' z) m = Int_CheckInRange z m \<and>
   (val (absv z1) = val (absv z2) \<longrightarrow> Int_CheckInRange z1 m = Int_CheckInRange z2 m) \<and>
   (valid_modulus m \<and> even m \<longrightarrow>
      Int_CheckInRange \<lparr>sign = 0, absv = \<lparr>val = m div 2, announced = n\<rparr>\<rparr> m = 1 \<and>
      \<not> (sign (Int_SetModSymmetric z0 x m) = 0 \<and>
         val (absv (Int_SetModSymmetric z0 x m)) = m div 2))"
proof -
  have "Int_CheckInRange (Int_Neg z' z) m = Int_CheckInRange z m"
    by (simp add: CheckInRange_iff Int_Neg_def Nat_SetNat_def)
  moreover have "Int_CheckInRange z1 m = Int_CheckInRange z2 m"
    if "val (absv z1) = val (absv z2)"
    using that by (simp add: CheckInRange_iff)
  moreover have
    "Int_CheckInRange \<lparr>sign = 0, absv = \<lparr>val = m div 2, announced = n\<rparr>\<rparr> m = 1"
    if "valid_modulus m" "even m"
    using that by (auto simp: CheckInRange_iff valid_modulus_def elim!: evenE)
  moreover have "\<not> (sign (Int_SetModSymmetric z0 x m) = 0 \<and>
         val (absv (Int_SetModSymmetric z0 x m)) = m div 2)"
    if vm: "valid_modulus m" and ev: "even m"
  proof
    assume h: "sign (Int_SetModSymmetric z0 x m) = 0 \<and>
         val (absv (Int_SetModSymmetric z0 x m)) = m div 2"
    from vm have m: "0 < m" by (simp add: valid_modulus_def)
    define r where "r = val x mod m"
    have r: "r < m" using m by (simp add: r_def)
    have neg: "(m - r) mod m = (if r = 0 then 0 else m - r)" using r by simp
    from h have "\<not> (m - r) mod m \<le> r" "min r ((m - r) mod m) = m div 2"
      by (simp_all add: SetModSymmetric_sign SetModSymmetric_val flip: r_def)
    with r ev show False by (auto simp: neg min_def split: if_splits elim!: evenE)
  qed
  ultimately show ?thesis by blast
qed

theorem check_in_range_ignores_sign_witness:
  "valid_modulus 8 \<and> even (8 :: nat) \<and>
   val (absv \<lparr>sign = 0, absv = \<lparr>val = 4, announced = 3\<rparr>\<rparr>) =
     val (absv \<lparr>sign = 1, absv = \<lparr>val = 4, announced = 9\<rparr>\<rparr>) \<and>
   Int_CheckInRange \<lparr>sign = 0, absv = \<lparr>val = 4, announced = 3\<rparr>\<rparr> 8 =
     Int_CheckInRange \<lparr>sign = 1, absv = \<lparr>val = 4, announced = 9\<rparr>\<rparr> 8 \<and>
   Int_CheckInRange \<lparr>sign = 0, absv = \<lparr>val = 8 div 2, announced = 3\<rparr>\<rparr> 8 = 1 \<and>
   \<not> (sign (Int_SetModSymmetric \<lparr>sign = 0, absv = new_Nat\<rparr>
               \<lparr>val = 4, announced = 3\<rparr> 8) = 0 \<and>
      val (absv (Int_SetModSymmetric \<lparr>sign = 0, absv = new_Nat\<rparr>
                   \<lparr>val = 4, announced = 3\<rparr> 8)) = 8 div 2)"
proof -
  have h: "valid_modulus 8 \<and> even (8 :: nat)"
    by (simp add: valid_modulus_def)
  have e: "val (absv \<lparr>sign = 0, absv = \<lparr>val = 4, announced = 3\<rparr>\<rparr>) =
     val (absv \<lparr>sign = 1, absv = \<lparr>val = 4, announced = 9\<rparr>\<rparr>)"
    by simp
  show ?thesis
    using check_in_range_ignores_sign [of "\<lparr>sign = 0, absv = new_Nat\<rparr>"
        "\<lparr>sign = 0, absv = new_Nat\<rparr>" 8
        "\<lparr>sign = 0, absv = \<lparr>val = 4, announced = 3\<rparr>\<rparr>"
        "\<lparr>sign = 1, absv = \<lparr>val = 4, announced = 9\<rparr>\<rparr>" 3
        "\<lparr>sign = 0, absv = new_Nat\<rparr>" "\<lparr>val = 4, announced = 3\<rparr>"] h e
    by blast
qed

end
